theory Spec2Isabelle
  imports Main "HOL-Library.Word"
begin

section \<open>The freestanding runtime stubs of svd2odin (\<open>runtime/stubs.c\<close>)\<close>

text \<open>
  The file defines two functions and nothing else:
  \<^verbatim>\<open>
  void abort(void) {
      while(1);
  }

  void *__aeabi_read_tp(void) {
      return (void*)0;
  }
  \<close>
  A closing comment says that \<open>disable_interrupts\<close>, \<open>enable_interrupts\<close> and
  \<open>wait_for_interrupt\<close> live in \<open>interrupt_helpers.s\<close>.
\<close>

subsection \<open>Machine state\<close>

text \<open>
  What a caller can observe of a routine on the bare-metal target: the memory it leaves
  behind, and the events it emits on the way (a call to a function outside the file, a load
  from or a store to a volatile location). Addresses are of type \<open>'a\<close>; the routines use
  \<open>'p word\<close>, a pointer of any width \<open>'p\<close>.
\<close>

datatype 'a event =
    Ext_call string
  | Vol_load 'a
  | Vol_store 'a "8 word"

record 'a machine =
  memory :: "'a \<Rightarrow> 8 word"
  trace :: "'a event list"

subsection \<open>Control points\<close>

text \<open>
  One control point for each place of the file where execution can stand, and one for the
  caller's code after the call site, which holds the returned value (\<open>None\<close> for a
  \<open>void\<close> function).
\<close>

datatype 'v control =
    Abort_while      \<comment> \<open>\<open>abort\<close>, line 6: the test of \<open>while(1)\<close>\<close>
  | Abort_body       \<comment> \<open>\<open>abort\<close>, line 6: the empty statement \<open>;\<close>\<close>
  | Abort_end        \<comment> \<open>\<open>abort\<close>, line 7: the closing brace\<close>
  | Tp_return        \<comment> \<open>\<open>__aeabi_read_tp\<close>, line 11: \<open>return (void*)0;\<close>\<close>
  | Caller "'v option"  \<comment> \<open>back in the caller, after the call site\<close>

fun in_abort_loop :: "'v control \<Rightarrow> bool" where
  "in_abort_loop Abort_while = True"
| "in_abort_loop Abort_body = True"
| "in_abort_loop Abort_end = False"
| "in_abort_loop Tp_return = False"
| "in_abort_loop (Caller v) = False"

fun returned :: "'v control \<Rightarrow> bool" where
  "returned (Caller v) = True"
| "returned Abort_while = False"
| "returned Abort_body = False"
| "returned Abort_end = False"
| "returned Tp_return = False"

subsection \<open>The declarations of the file\<close>

datatype ctype = Void | Pointer ctype

datatype linkage = External | Internal

record 'v fundef =
  fn_name :: string
  fn_linkage :: linkage
  fn_return :: ctype
  fn_params :: "ctype list"
  fn_entry :: "'v control"

record 'v translation_unit =
  tu_functions :: "'v fundef list"
  tu_globals :: "(string \<times> ctype) list"

text \<open>
  Neither function is \<open>static\<close>, both have the parameter list \<open>(void)\<close>, and the file
  declares no object at file scope.
\<close>

definition abort_decl :: "'v fundef" where
  "abort_decl =
    \<lparr> fn_name = ''abort'', fn_linkage = External, fn_return = Void,
      fn_params = [], fn_entry = Abort_while \<rparr>"

definition read_tp_decl :: "'v fundef" where
  "read_tp_decl =
    \<lparr> fn_name = ''__aeabi_read_tp'', fn_linkage = External, fn_return = Pointer Void,
      fn_params = [], fn_entry = Tp_return \<rparr>"

definition stubs_c :: "'v translation_unit" where
  "stubs_c = \<lparr> tu_functions = [abort_decl, read_tp_decl], tu_globals = [] \<rparr>"

definition exported :: "'v translation_unit \<Rightarrow> (string \<times> ctype list \<times> ctype) list" where
  "exported tu =
     map (\<lambda>f. (fn_name f, fn_params f, fn_return f))
       (filter (\<lambda>f. fn_linkage f = External) (tu_functions tu))"

text \<open>The names that the closing comment of the file places in \<open>interrupt_helpers.s\<close>.\<close>

definition interrupt_primitives :: "string list" where
  "interrupt_primitives = [''disable_interrupts'', ''enable_interrupts'', ''wait_for_interrupt'']"

subsection \<open>\<open>__aeabi_read_tp\<close>\<close>

text \<open>The cast \<open>(void*)n\<close> of an integer to a pointer.\<close>

definition cast_void_ptr :: "int \<Rightarrow> 'p::len word" where
  "cast_void_ptr n = word_of_int n"

text \<open>\<open>return (void*)0;\<close>: the value handed to the caller, and the state it is given back.\<close>

definition aeabi_read_tp :: "'p word machine \<Rightarrow> 'p::len word \<times> 'p word machine" where
  "aeabi_read_tp s = (cast_void_ptr 0, s)"

subsection \<open>\<open>abort\<close>\<close>

text \<open>
  \<open>while(1);\<close> as a function of the state: the test is the constant \<open>1\<close>, the body is the
  empty statement, which hands the state on as it is. The result is the state at the closing
  brace, and \<open>None\<close> when the loop does not end.
\<close>

partial_function (option) abort :: "'a machine \<Rightarrow> 'a machine option" where
  "abort s = (if (1::int) \<noteq> 0 then abort s else Some s)"

subsection \<open>One step of execution\<close>

text \<open>
  The same code, one control point at a time. \<open>while(1)\<close> goes to its body when the
  constant is not zero and past the loop otherwise; the empty statement goes back to the
  test; the closing brace of the \<open>void\<close> function returns no value; the \<open>return\<close>
  statement returns what \<open>aeabi_read_tp\<close> computes. The caller's code is outside the file.
\<close>

fun stubs_step :: "'p::len word control \<times> 'p word machine
                     \<Rightarrow> ('p word control \<times> 'p word machine) option" where
  "stubs_step (Abort_while, s) = Some (if (1::int) \<noteq> 0 then Abort_body else Abort_end, s)"
| "stubs_step (Abort_body, s) = Some (Abort_while, s)"
| "stubs_step (Abort_end, s) = Some (Caller None, s)"
| "stubs_step (Tp_return, s) = (case aeabi_read_tp s of (v, s') \<Rightarrow> Some (Caller (Some v), s'))"
| "stubs_step (Caller v, s) = None"

text \<open>\<open>stubs_run n c\<close>: the configuration after exactly \<open>n\<close> steps, if execution goes on that long.\<close>

fun stubs_run :: "nat \<Rightarrow> 'p::len word control \<times> 'p word machine
                    \<Rightarrow> ('p word control \<times> 'p word machine) option" where
  "stubs_run 0 c = Some c"
| "stubs_run (Suc n) c = (case stubs_step c of None \<Rightarrow> None | Some c' \<Rightarrow> stubs_run n c')"

text \<open>The configurations reachable from a configuration, in any number of steps.\<close>

inductive stubs_reach :: "'p::len word control \<times> 'p word machine
                            \<Rightarrow> 'p word control \<times> 'p word machine \<Rightarrow> bool" where
  reach_refl: "stubs_reach c c"
| reach_step: "stubs_reach c c' \<Longrightarrow> stubs_step c' = Some c'' \<Longrightarrow> stubs_reach c c''"

text \<open>A concrete machine with 32-bit pointers: zeroed memory, nothing emitted so far.\<close>

definition zero_machine :: "32 word machine" where
  "zero_machine = \<lparr> memory = (\<lambda>a. 0), trace = [] \<rparr>"

section \<open>Basic facts\<close>

lemma stubs_step_state: "stubs_step (pc, s) = Some (pc', s') \<Longrightarrow> s' = s"
  by (cases pc) (auto simp: aeabi_read_tp_def split: if_splits)

lemma stubs_reach_state: "stubs_reach c c' \<Longrightarrow> snd c' = snd c"
proof (induction rule: stubs_reach.induct)
  case (reach_refl c)
  show ?case by simp
next
  case (reach_step c c' c'')
  from reach_step.hyps(2) have "snd c'' = snd c'"
    using stubs_step_state [of "fst c'" "snd c'" "fst c''" "snd c''"] by simp
  with reach_step.IH show ?case by simp
qed

lemma abort_loop_closed:
  "in_abort_loop pc \<Longrightarrow> stubs_step (pc, s) = Some (pc', s') \<Longrightarrow> in_abort_loop pc'"
  by (cases pc) auto

lemma stubs_reach_abort_loop:
  "stubs_reach c c' \<Longrightarrow> in_abort_loop (fst c) \<Longrightarrow> in_abort_loop (fst c')"
proof (induction rule: stubs_reach.induct)
  case (reach_refl c)
  then show ?case .
next
  case (reach_step c c' c'')
  from reach_step.IH reach_step.prems have "in_abort_loop (fst c')" .
  with reach_step.hyps(2) show ?case
    using abort_loop_closed [of "fst c'" "snd c'" "fst c''" "snd c''"] by simp
qed

lemma in_abort_loop_not_returned: "in_abort_loop pc \<Longrightarrow> \<not> returned pc"
  by (cases pc) simp_all

lemma abort_no_result:
  assumes "abort s = Some s'"
  shows False
proof (rule abort.raw_induct [where P = "\<lambda>s s'. False", OF _ assms])
  fix loop :: "'a machine \<Rightarrow> 'a machine option" and s s'
  assume IH: "\<And>s s'. loop s = Some s' \<Longrightarrow> False"
    and unfolded: "(if (1::int) \<noteq> 0 then loop s else Some s) = Some s'"
  from unfolded have "loop s = Some s'" by simp
  then show False by (rule IH)
qed

lemma abort_diverges: "abort s = None"
  using abort_no_result [of s] by (cases "abort s") auto

lemma stubs_run_abort_loop:
  "stubs_run n (Abort_while, s) = Some (if even n then Abort_while else Abort_body, s) \<and>
   stubs_run n (Abort_body, s) = Some (if even n then Abort_body else Abort_while, s)"
  by (induction n) simp_all

lemma stubs_run_control:
  "map_option fst (stubs_run n (pc, s)) = map_option fst (stubs_run n (pc, s'))"
proof (induction n arbitrary: pc)
  case 0
  show ?case by simp
next
  case (Suc n)
  show ?case
    using Suc.IH by (cases pc) (simp_all add: aeabi_read_tp_def)
qed

lemma stubs_step_memory_independent:
  "stubs_step (pc, s\<lparr>memory := m\<rparr>) =
     map_option (\<lambda>(pc', s'). (pc', s'\<lparr>memory := m\<rparr>)) (stubs_step (pc, s))"
  by (cases pc) (simp_all add: aeabi_read_tp_def)

section \<open>The claims\<close>

text \<open>
  C1. Once \<open>abort\<close> is entered, control never returns to the caller and goes nowhere else:
  as a function of the state \<open>abort\<close> has no result, and every configuration reachable from
  its entry, in any number of steps, stands at the loop's test or at its empty body, so it
  is neither the closing brace nor the caller's code after the call site.
\<close>

theorem abort_never_returns:
  "stubs_reach (Abort_while, s) c \<Longrightarrow>
     abort s = None \<and> in_abort_loop (fst c) \<and> \<not> returned (fst c) \<and> fst c \<noteq> Abort_end"
proof -
  assume r: "stubs_reach (Abort_while, s) c"
  have l: "in_abort_loop (fst c)"
    using stubs_reach_abort_loop [OF r] by simp
  have e: "fst c \<noteq> Abort_end"
    using l by (cases "fst c") simp_all
  show ?thesis
    using l e in_abort_loop_not_returned [OF l] abort_diverges by simp
qed

theorem abort_never_returns_witness:
  "stubs_reach (Abort_while, zero_machine) (Abort_body, zero_machine)
   \<and> abort zero_machine = None
   \<and> in_abort_loop (fst (Abort_body :: 32 word control, zero_machine))
   \<and> \<not> returned (fst (Abort_body :: 32 word control, zero_machine))"
proof -
  have r: "stubs_reach (Abort_while, zero_machine) (Abort_body, zero_machine)"
    by (rule reach_step [OF reach_refl]) simp
  show ?thesis
    using r abort_never_returns [OF r] by simp
qed

text \<open>
  C2. From any state \<open>__aeabi_read_tp\<close> returns the null pointer, and of two calls made one
  after the other (the second from the state the first leaves) both return that same null
  value.
\<close>

theorem read_tp_returns_null:
  "fst (aeabi_read_tp s) = 0 \<and>
   (case aeabi_read_tp s of (v1, s1) \<Rightarrow>
      case aeabi_read_tp s1 of (v2, s2) \<Rightarrow> v1 = 0 \<and> v2 = 0 \<and> v1 = v2)"
  by (simp add: aeabi_read_tp_def cast_void_ptr_def)

text \<open>
  C3. Neither routine has a side effect: \<open>__aeabi_read_tp\<close> gives back the state it was
  called in, and a step of execution from any control point of the file, so every step that
  \<open>abort\<close> takes, leaves the whole state (memory and emitted events) as it was.
\<close>

theorem stubs_no_side_effect:
  "stubs_step (pc, s) = Some (pc', s') \<Longrightarrow> s' = s \<and> snd (aeabi_read_tp s) = s"
proof -
  assume "stubs_step (pc, s) = Some (pc', s')"
  then have "s' = s" by (rule stubs_step_state)
  moreover have "snd (aeabi_read_tp s) = s" by (simp add: aeabi_read_tp_def)
  ultimately show ?thesis by simp
qed

theorem stubs_no_side_effect_witness:
  "stubs_step (Abort_body, zero_machine) = Some (Abort_while, zero_machine)
   \<and> snd (aeabi_read_tp zero_machine) = zero_machine"
proof -
  have h: "stubs_step (Abort_body, zero_machine) = Some (Abort_while, zero_machine)"
    by simp
  show ?thesis
    using h stubs_no_side_effect [OF h] by simp
qed

text \<open>
  C4. \<open>__aeabi_read_tp\<close> is deterministic and stateless: started in any two states it
  returns the same value. Each routine has one behaviour: from a given control point the
  sequence of control points passed does not depend on the state, for any number of steps.
\<close>

theorem read_tp_stateless:
  "fst (aeabi_read_tp s) = fst (aeabi_read_tp s') \<and>
   map_option fst (stubs_run n (pc, s)) = map_option fst (stubs_run n (pc, s'))"
proof
  show "fst (aeabi_read_tp s) = fst (aeabi_read_tp s')"
    by (simp add: aeabi_read_tp_def)
  show "map_option fst (stubs_run n (pc, s)) = map_option fst (stubs_run n (pc, s'))"
    by (rule stubs_run_control)
qed

text \<open>
  C6. \<open>abort\<close> is a silent sink: after any number \<open>n\<close> of steps from its entry, execution
  is still going on inside the loop, no event has been emitted (no call, no volatile
  access, so no log, signal, message or dump) and memory is as at entry; the routine hands no
  result back.
\<close>

theorem abort_silent_halt:
  "\<exists>pc s'. stubs_run n (Abort_while, s) = Some (pc, s') \<and> in_abort_loop pc
      \<and> trace s' = trace s \<and> memory s' = memory s \<and> abort s = None"
proof -
  let ?pc = "if even n then Abort_while else Abort_body :: 'a word control"
  have "stubs_run n (Abort_while, s) = Some (?pc, s)"
    using stubs_run_abort_loop [of n s] by simp
  moreover have "in_abort_loop ?pc" by simp
  ultimately show ?thesis
    using abort_diverges [of s] by blast
qed

text \<open>
  C7. The file exports two symbols and no other: \<open>abort\<close>, without parameters and
  returning \<open>void\<close>, and \<open>__aeabi_read_tp\<close>, without parameters and returning a
  pointer. The closing brace of \<open>abort\<close> would hand the caller no value, and
  \<open>__aeabi_read_tp\<close> hands it the null pointer.
\<close>

theorem stubs_interface:
  "exported (stubs_c :: 'p::len word translation_unit) =
     [(''abort'', [], Void), (''__aeabi_read_tp'', [], Pointer Void)]
   \<and> map fn_entry (tu_functions (stubs_c :: 'p word translation_unit)) = [Abort_while, Tp_return]
   \<and> stubs_step (Abort_end, s :: 'p word machine) = Some (Caller None, s)
   \<and> stubs_step (Tp_return, s) = Some (Caller (Some 0), s)"
  by (simp add: exported_def stubs_c_def abort_decl_def read_tp_decl_def
        aeabi_read_tp_def cast_void_ptr_def)

text \<open>
  C9. \<open>__aeabi_read_tp\<close> is total and cannot fault: from any state it is back in the caller
  after one step, with the null pointer and the state unchanged, and execution of the
  routine ends there.
\<close>

theorem read_tp_total:
  "aeabi_read_tp s = (0, s)
   \<and> stubs_run (Suc 0) (Tp_return, s) = Some (Caller (Some 0), s)
   \<and> stubs_step (Caller (Some 0), s) = None"
  by (simp add: aeabi_read_tp_def cast_void_ptr_def)

text \<open>
  C8. The file neither implements nor calls the interrupt primitives: no function it
  defines bears one of their names, and whichever of its functions is run, from whatever
  state, every configuration reached has the trace of events it started with, so no call to
  a function outside the file has occurred.
\<close>

theorem stubs_no_external_call:
  assumes "f \<in> set (tu_functions stubs_c)"
    and "stubs_reach (fn_entry f, s) c"
  shows "trace (snd c) = trace s \<and> fn_name f \<notin> set interrupt_primitives"
proof
  show "trace (snd c) = trace s"
    using stubs_reach_state [OF assms(2)] by simp
  show "fn_name f \<notin> set interrupt_primitives"
    using assms(1)
    by (auto simp: stubs_c_def abort_decl_def read_tp_decl_def interrupt_primitives_def)
qed

theorem stubs_no_external_call_witness:
  "(abort_decl :: 32 word fundef) \<in> set (tu_functions stubs_c)
   \<and> stubs_reach (fn_entry abort_decl, zero_machine) (Abort_body, zero_machine)
   \<and> trace (snd (Abort_body :: 32 word control, zero_machine)) = trace zero_machine
   \<and> fn_name (abort_decl :: 32 word fundef) \<notin> set interrupt_primitives"
proof -
  have m: "(abort_decl :: 32 word fundef) \<in> set (tu_functions stubs_c)"
    by (simp add: stubs_c_def)
  have "stubs_reach (Abort_while, zero_machine) (Abort_body, zero_machine)"
    by (rule reach_step [OF reach_refl]) simp
  then have r: "stubs_reach (fn_entry abort_decl, zero_machine) (Abort_body, zero_machine)"
    by (simp add: abort_decl_def)
  show ?thesis
    using m r stubs_no_external_call [OF m r] by simp
qed

text \<open>
  C10. The file touches no memory: it declares no object at file scope; whichever of its
  functions is run, every configuration reached has the memory it started with; and a step
  neither writes memory nor looks at it, since replacing the memory before the step is the
  same as replacing it after.
\<close>

theorem stubs_memory_invariant:
  assumes "f \<in> set (tu_functions stubs_c)"
    and "stubs_reach (fn_entry f, s) c"
  shows "tu_globals (stubs_c :: 'p::len word translation_unit) = []
    \<and> memory (snd c) = memory s
    \<and> stubs_step (fst c, (snd c :: 'p word machine)\<lparr>memory := m\<rparr>) =
        map_option (\<lambda>(pc', s'). (pc', s'\<lparr>memory := m\<rparr>)) (stubs_step c)"
proof -
  have g: "tu_globals (stubs_c :: 'p word translation_unit) = []"
    by (simp add: stubs_c_def)
  have i: "memory (snd c) = memory s"
    using stubs_reach_state [OF assms(2)] by simp
  have "stubs_step (fst c, (snd c)\<lparr>memory := m\<rparr>) =
        map_option (\<lambda>(pc', s'). (pc', s'\<lparr>memory := m\<rparr>)) (stubs_step (fst c, snd c))"
    by (rule stubs_step_memory_independent)
  with g i show ?thesis by simp
qed

theorem stubs_memory_invariant_witness:
  "(read_tp_decl :: 32 word fundef) \<in> set (tu_functions stubs_c)
   \<and> stubs_reach (fn_entry read_tp_decl, zero_machine) (Caller (Some 0), zero_machine)
   \<and> memory (snd (Caller (Some 0) :: 32 word control, zero_machine)) = memory zero_machine"
proof -
  have m: "(read_tp_decl :: 32 word fundef) \<in> set (tu_functions stubs_c)"
    by (simp add: stubs_c_def)
  have "stubs_reach (Tp_return, zero_machine) (Caller (Some 0), zero_machine)"
    by (rule reach_step [OF reach_refl]) (simp add: aeabi_read_tp_def cast_void_ptr_def)
  then have r: "stubs_reach (fn_entry read_tp_decl, zero_machine) (Caller (Some 0), zero_machine)"
    by (simp add: read_tp_decl_def)
  show ?thesis
    using m r stubs_memory_invariant [OF m r] by simp
qed

end
